theory Spec2Isabelle
  imports Main
begin

section \<open>JavaScript values, objects and references\<close>

text \<open>
  The runtime of \<^verbatim>\<open>src/runtime/runtime.ts\<close> passes plain objects keyed by strings
  (loader options, configuration, raw command descriptors). An object is a finite map from
  property names to values; a value is undefined, null, a boolean, a string or an object.
  Numbers, arrays and functions are left out of the model.
\<close>

datatype jval =
    JUndefined
  | JNull
  | JBool bool
  | JStr string
  | JObj "string \<rightharpoonup> jval"

type_synonym jobject = "string \<rightharpoonup> jval"

text \<open>Property read \<^verbatim>\<open>o[k]\<close>: a missing property reads as \<^verbatim>\<open>undefined\<close>.\<close>

definition get_prop :: "jobject \<Rightarrow> string \<Rightarrow> jval" where
  "get_prop obj k = (case obj k of None \<Rightarrow> JUndefined | Some v \<Rightarrow> v)"

text \<open>JavaScript truthiness, as used by \<^verbatim>\<open>if (x)\<close>, \<^verbatim>\<open>!x\<close> and \<^verbatim>\<open>x || y\<close>.\<close>

fun truthy :: "jval \<Rightarrow> bool" where
  "truthy JUndefined = False"
| "truthy JNull = False"
| "truthy (JBool b) = b"
| "truthy (JStr s) = (s \<noteq> [])"
| "truthy (JObj m) = True"

text \<open>String conversion of a value inside a template literal \<^verbatim>\<open>`${v}`\<close>.\<close>

fun to_str :: "jval \<Rightarrow> string" where
  "to_str JUndefined = ''undefined''"
| "to_str JNull = ''null''"
| "to_str (JBool b) = (if b then ''true'' else ''false'')"
| "to_str (JStr s) = s"
| "to_str (JObj m) = ''[object Object]''"

text \<open>Member read \<^verbatim>\<open>v.k\<close> on an arbitrary value: it throws on \<^verbatim>\<open>undefined\<close> and
  \<^verbatim>\<open>null\<close>, and primitives have no own properties.\<close>

datatype error =
    Error string
  | TypeError string
  | ReferenceError string

fun member :: "jval \<Rightarrow> string \<Rightarrow> error + jval" where
  "member JUndefined k = Inl (TypeError (''Cannot read property '' @ k @ '' of undefined''))"
| "member JNull k = Inl (TypeError (''Cannot read property '' @ k @ '' of null''))"
| "member (JObj m) k = Inr (get_prop m k)"
| "member v k = Inr JUndefined"

text \<open>\<^verbatim>\<open>Object.assign(target, source)\<close>: every own property of the source overwrites the
  target's; ramda's \<^verbatim>\<open>dissoc(key, obj)\<close>: the object without that key.\<close>

definition assign :: "jobject \<Rightarrow> jobject \<Rightarrow> jobject" where
  "assign target source = target ++ source"

definition dissoc :: "string \<Rightarrow> jobject \<Rightarrow> jobject" where
  "dissoc k obj = obj(k := None)"

text \<open>
  Objects are compared by identity (\<^verbatim>\<open>p !== this.defaultPlugin\<close>) and mutated in place
  (\<^verbatim>\<open>this.defaultPlugin.commands.unshift\<close>), so Plugin objects live in a store and the
  runtime holds references. A reference is \<^verbatim>\<open>null\<close>, the address of a Plugin in the
  store, or the Runtime object itself (what \<^verbatim>\<open>return this\<close> yields).
\<close>

datatype ref = Null | PluginAt nat | This

text \<open>ramda's \<^verbatim>\<open>isNil\<close> and truthiness, on references.\<close>

fun isNil :: "ref \<Rightarrow> bool" where
  "isNil Null = True"
| "isNil r = False"

fun ref_truthy :: "ref \<Rightarrow> bool" where
  "ref_truthy Null = False"
| "ref_truthy r = True"

section \<open>Domain objects\<close>

text \<open>A function value (an extension's setup routine) is known by identity only: the
  module a \<^verbatim>\<open>require\<close> names, or a closure a plugin brought along.\<close>

datatype setup_routine = Require string | Closure nat

record extension =
  name :: string
  setup_fn :: setup_routine

text \<open>Modelled from the spec: the Command class of \<^verbatim>\<open>src/domain/command\<close> is not part of
  the source given; section 3 of the specification gives it a name, an alias set and a
  nested sub-command sequence.\<close>

datatype command = Command (cname: string) (aliases: "string list") (subcommands: "command list")

text \<open>Modelled from the spec: the Plugin class of \<^verbatim>\<open>src/domain/plugin\<close> is not part of
  the source given; section 3 of the specification gives it an identity, a source directory,
  a hidden flag, an ordered command sequence and an ordered extension sequence. The runtime
  reads \<^verbatim>\<open>plugin.extensions\<close> and \<^verbatim>\<open>plugin.commands\<close>.\<close>

record plugin =
  plugin_name :: string
  directory :: string
  hidden :: bool
  commands :: "command list"
  plugin_extensions :: "extension list"

text \<open>The fields of class Runtime (lines 19 to 26), and the store of Plugin objects
  that the references in \<^verbatim>\<open>plugins\<close> and \<^verbatim>\<open>defaultPlugin\<close> point into.\<close>

record runtime =
  brand :: "string option"
  plugins :: "ref list"
  extensions :: "extension list"
  defaults :: jval
  defaultPlugin :: ref
  config :: jobject
  heap :: "plugin list"

text \<open>\<^verbatim>\<open>this.brand\<close> as a value: the constructor's parameter is optional.\<close>

definition brand_val :: "runtime \<Rightarrow> jval" where
  "brand_val w = (case brand w of None \<Rightarrow> JUndefined | Some b \<Rightarrow> JStr b)"

section \<open>Collaborators\<close>

text \<open>
  The functions the runtime imports (lines 1 to 13) are not part of the source given; they
  are parameters of the model. The loaders may throw. \<^verbatim>\<open>subdirectories\<close> takes the four
  arguments of line 159. Line 111 reads an identifier \<^verbatim>\<open>defaultPlugin\<close> that the module
  neither declares nor imports: it resolves in the global scope, and \<open>None\<close> stands for
  there being no global of that name.
\<close>

record env =
  isDirectory :: "string \<Rightarrow> bool"
  isBlank :: "string \<Rightarrow> bool"
  subdirectories :: "string \<Rightarrow> bool \<Rightarrow> jval \<Rightarrow> bool \<Rightarrow> string list"
  resolve :: "string \<Rightarrow> string"
  loadPluginFromDirectory :: "string \<Rightarrow> jobject \<Rightarrow> error + plugin"
  loadConfig :: "jval \<Rightarrow> jval \<Rightarrow> error + jobject option"
  loadCommandFromPreload :: "jobject \<Rightarrow> error + command"
  global_defaultPlugin :: "jval option"

section \<open>The Runtime\<close>

text \<open>Every method returns a thrown error or a value, together with the state it leaves
  behind: an exception does not undo the writes made before it.\<close>

type_synonym 'a outcome = "(error + 'a) \<times> runtime"

text \<open>\<^verbatim>\<open>xs.forEach(f)\<close>: the callback runs on each element in order; a throw ends the loop.\<close>

fun forEach :: "('a \<Rightarrow> runtime \<Rightarrow> 'b outcome) \<Rightarrow> 'a list \<Rightarrow> runtime \<Rightarrow> unit outcome" where
  "forEach f [] w = (Inr (), w)"
| "forEach f (x # xs) w =
     (case f x w of
        (Inl e, w') \<Rightarrow> (Inl e, w')
      | (Inr _, w') \<Rightarrow> forEach f xs w')"

text \<open>Lines 94 to 97.\<close>

definition addExtension :: "string \<Rightarrow> setup_routine \<Rightarrow> runtime \<Rightarrow> ref outcome" where
  "addExtension n s w = (Inr This, w\<lparr>extensions := extensions w @ [\<lparr>name = n, setup_fn = s\<rparr>]\<rparr>)"

text \<open>Lines 56 to 67, with the module each name is paired with as written there.\<close>

definition addCoreExtensions :: "runtime \<Rightarrow> runtime" where
  "addCoreExtensions w0 =
    (let w1 = snd (addExtension ''meta'' (Require ''../core-extensions/meta-extension'') w0);
         w2 = snd (addExtension ''strings'' (Require ''../core-extensions/template-extension'') w1);
         w3 = snd (addExtension ''print'' (Require ''../core-extensions/print-extension'') w2);
         w4 = snd (addExtension ''template'' (Require ''../core-extensions/filesystem-extension'') w3);
         w5 = snd (addExtension ''filesystem'' (Require ''../core-extensions/semver-extension'') w4);
         w6 = snd (addExtension ''semver'' (Require ''../core-extensions/system-extension'') w5);
         w7 = snd (addExtension ''system'' (Require ''../core-extensions/prompt-extension'') w6);
         w8 = snd (addExtension ''http'' (Require ''../core-extensions/http-extension'') w7);
         w9 = snd (addExtension ''prompt'' (Require ''../core-extensions/strings-extension'') w8)
     in snd (addExtension ''patching'' (Require ''../core-extensions/patching-extension'') w9))"

text \<open>The constructor, lines 31 to 41. The store starts empty.\<close>

definition new_runtime :: "string option \<Rightarrow> runtime" where
  "new_runtime b =
     addCoreExtensions
       \<lparr>brand = b, plugins = [], extensions = [], defaults = JObj Map.empty,
        defaultPlugin = Null, config = Map.empty, heap = []\<rparr>"

text \<open>Lines 125 to 146. The loaded Plugin is a new object in the store; the method
  returns \<^verbatim>\<open>this\<close> on every path that returns.\<close>

definition loader_options :: "runtime \<Rightarrow> jobject \<Rightarrow> jobject" where
  "loader_options w opts =
     [''brand'' \<mapsto> brand_val w,
      ''hidden'' \<mapsto> get_prop opts ''hidden'',
      ''name'' \<mapsto> get_prop opts ''name'',
      ''commandFilePattern'' \<mapsto> get_prop opts ''commandFilePattern'',
      ''extensionFilePattern'' \<mapsto> get_prop opts ''extensionFilePattern'',
      ''preloadedCommands'' \<mapsto> get_prop opts ''preloadedCommands'']"

definition addPlugin :: "env \<Rightarrow> string \<Rightarrow> jobject \<Rightarrow> runtime \<Rightarrow> ref outcome" where
  "addPlugin E dir opts w =
     (if \<not> isDirectory E dir then
        (if truthy (get_prop opts ''required'')
         then (Inl (Error (''Error: couldn't load plugin (not a directory): '' @ dir)), w)
         else (Inr This, w))
      else
        (case loadPluginFromDirectory E (resolve E dir) (loader_options w opts) of
           Inl e \<Rightarrow> (Inl e, w)
         | Inr p \<Rightarrow>
             (let w1 = w\<lparr>plugins := plugins w @ [PluginAt (length (heap w))],
                         heap := heap w @ [p]\<rparr>
              in case forEach (\<lambda>x. addExtension (name x) (setup_fn x)) (plugin_extensions p) w1 of
                   (Inl e, w2) \<Rightarrow> (Inl e, w2)
                 | (Inr _, w2) \<Rightarrow> (Inr This, w2))))"

text \<open>Lines 155 to 165.\<close>

definition addPlugins :: "env \<Rightarrow> string \<Rightarrow> jobject \<Rightarrow> runtime \<Rightarrow> ref outcome" where
  "addPlugins E dir opts w =
     (if isBlank E dir \<or> \<not> isDirectory E dir then (Inr This, w)
      else
        (let subdirs = subdirectories E dir False (get_prop opts ''matching'') True
         in case forEach (\<lambda>d. addPlugin E d (dissoc ''matching'' opts)) subdirs w of
              (Inl e, w') \<Rightarrow> (Inl e, w')
            | (Inr _, w') \<Rightarrow> (Inr This, w')))"

text \<open>Lines 106 to 116. The options handed to \<^verbatim>\<open>addPlugin\<close> are the object literal of
  line 107 overwritten by the caller's options.\<close>

definition default_plugin_options :: "runtime \<Rightarrow> jobject \<Rightarrow> jobject" where
  "default_plugin_options w opts =
     assign [''required'' \<mapsto> JBool True, ''name'' \<mapsto> brand_val w] opts"

definition addDefaultPlugin :: "env \<Rightarrow> string \<Rightarrow> jobject \<Rightarrow> runtime \<Rightarrow> ref outcome" where
  "addDefaultPlugin E dir opts w =
     (case addPlugin E dir (default_plugin_options w opts) w of
        (Inl e, w1) \<Rightarrow> (Inl e, w1)
      | (Inr plugin, w1) \<Rightarrow>
          (let w2 = w1\<lparr>defaultPlugin := plugin\<rparr>
           in case global_defaultPlugin E of
                None \<Rightarrow> (Inl (ReferenceError ''defaultPlugin is not defined''), w2)
              | Some g \<Rightarrow>
                  (case member g ''value'' of
                     Inl e \<Rightarrow> (Inl e, w2)
                   | Inr v \<Rightarrow>
                       (case loadConfig E (brand_val w2) v of
                          Inl e \<Rightarrow> (Inl e, w2)
                        | Inr loaded \<Rightarrow>
                            (let cfg = (case loaded of None \<Rightarrow> Map.empty | Some c \<Rightarrow> c)
                             in (Inr This, w2\<lparr>defaults := get_prop cfg ''defaults'',
                                              config := dissoc ''defaults'' cfg\<rparr>))))))"

text \<open>Lines 74 to 83. \<^verbatim>\<open>unshift\<close> writes into the Plugin object the reference points
  at; the Runtime object has no \<^verbatim>\<open>commands\<close> property to call it on.\<close>

definition addCommand :: "env \<Rightarrow> jobject \<Rightarrow> runtime \<Rightarrow> ref outcome" where
  "addCommand E cmd w =
     (if \<not> ref_truthy (defaultPlugin w) then
        (Inl (Error (''Can't add command '' @ to_str (get_prop cmd ''name'') @
                     '' - no default plugin. You may have forgotten a src() on your runtime.'')), w)
      else
        (case loadCommandFromPreload E cmd of
           Inl e \<Rightarrow> (Inl e, w)
         | Inr c \<Rightarrow>
             (case defaultPlugin w of
                PluginAt a \<Rightarrow>
                  (if a < length (heap w)
                   then (Inr This,
                         w\<lparr>heap := (heap w)[a := (heap w ! a)\<lparr>commands := c # commands (heap w ! a)\<rparr>]\<rparr>)
                   else (Inl (TypeError ''Cannot read property commands of undefined''), w))
              | _ \<Rightarrow> (Inl (TypeError ''Cannot read property unshift of undefined''), w))))"

text \<open>Lines 179 and 180: the default plugin first, then the other registered plugins in
  registration order, without the null slots.\<close>

definition search_order :: "runtime \<Rightarrow> ref list" where
  "search_order w =
     (let otherPlugins = filter (\<lambda>p. p \<noteq> defaultPlugin w) (plugins w)
      in filter (\<lambda>p. \<not> isNil p) (defaultPlugin w # otherPlugins))"

text \<open>Modelled from the spec: \<^verbatim>\<open>findCommand\<close> of \<^verbatim>\<open>./runtime-find-command\<close>, which line 182
  calls, is not part of the source given. Section 4.4 of the specification: within a plugin
  the tokens are consumed greedily down the command tree, a token matching a command's name
  or one of its aliases, and the deepest match wins; an empty token array matches the
  plugin's no-name command; across plugins the first one in search order with a match wins;
  the remainder is the unconsumed tokens.\<close>

definition matches :: "string \<Rightarrow> command \<Rightarrow> bool" where
  "matches t c = (cname c = t \<or> t \<in> set (aliases c))"

fun walk :: "command list \<Rightarrow> string list \<Rightarrow> (command \<times> string list) option" where
  "walk cmds [] = None"
| "walk cmds (t # ts) =
     (case find (matches t) cmds of
        None \<Rightarrow> None
      | Some c \<Rightarrow>
          (case walk (subcommands c) ts of
             None \<Rightarrow> Some (c, ts)
           | Some deeper \<Rightarrow> Some deeper))"

definition match_plugin :: "plugin \<Rightarrow> string list \<Rightarrow> (command \<times> string list) option" where
  "match_plugin p tokens =
     (if tokens = []
      then map_option (\<lambda>c. (c, [])) (find (\<lambda>c. cname c = []) (commands p))
      else walk (commands p) tokens)"

text \<open>A reference that is not a Plugin of the store has no command tree to match.\<close>

definition match_ref :: "plugin list \<Rightarrow> ref \<Rightarrow> string list \<Rightarrow> (command \<times> string list) option" where
  "match_ref h r tokens =
     (case r of
        PluginAt a \<Rightarrow> (if a < length h then match_plugin (h ! a) tokens else None)
      | _ \<Rightarrow> None)"

fun first_match :: "plugin list \<Rightarrow> ref list \<Rightarrow> string list \<Rightarrow> (ref \<times> command \<times> string list) option" where
  "first_match h [] tokens = None"
| "first_match h (r # rs) tokens =
     (case match_ref h r tokens of
        Some (c, rest) \<Rightarrow> Some (r, c, rest)
      | None \<Rightarrow> first_match h rs tokens)"

record parameters =
  array :: "string list"
  options :: jobject

definition runtime_find_command :: "runtime \<Rightarrow> parameters \<Rightarrow> (ref \<times> command \<times> string list) option" where
  "runtime_find_command w ps = first_match (heap w) (search_order w) (array ps)"

text \<open>Lines 173 to 185: the method hands the runtime and the parameters to the imported
  resolver and returns its plugin, command and remainder; \<open>None\<close> is the result with all
  three undefined. The list \<^verbatim>\<open>plugins\<close> of line 180 is not passed on: the resolver builds
  the same order from the runtime (step 1 of section 4.4).\<close>

definition findCommand :: "runtime \<Rightarrow> parameters \<Rightarrow> (ref \<times> command \<times> string list) option" where
  "findCommand w ps = runtime_find_command w ps"

section \<open>Sequences of builder calls\<close>

text \<open>The builder surface of the runtime. A caller may go on after a call has thrown, and
  the file system may differ from one call to the next, so each call comes with the
  collaborators it runs against.\<close>

datatype call =
    AddExtension string setup_routine
  | AddPlugin string jobject
  | AddPlugins string jobject
  | AddDefaultPlugin string jobject
  | AddCommand jobject

fun exec :: "env \<Rightarrow> call \<Rightarrow> runtime \<Rightarrow> ref outcome" where
  "exec E (AddExtension n s) w = addExtension n s w"
| "exec E (AddPlugin d opts) w = addPlugin E d opts w"
| "exec E (AddPlugins d opts) w = addPlugins E d opts w"
| "exec E (AddDefaultPlugin d opts) w = addDefaultPlugin E d opts w"
| "exec E (AddCommand cmd) w = addCommand E cmd w"

fun run_calls :: "(env \<times> call) list \<Rightarrow> runtime \<Rightarrow> runtime" where
  "run_calls [] w = w"
| "run_calls ((E, c) # cs) w = run_calls cs (snd (exec E c w))"

text \<open>The batch of \<^verbatim>\<open>addPlugins\<close> in the specification's words (section 4.1): call
  \<^verbatim>\<open>addPlugin\<close> on each subdirectory in turn with the forwarded options.\<close>

fun add_each :: "env \<Rightarrow> jobject \<Rightarrow> string list \<Rightarrow> runtime \<Rightarrow> ref outcome" where
  "add_each E opts [] w = (Inr This, w)"
| "add_each E opts (d # ds) w =
     (case addPlugin E d opts w of
        (Inl e, w') \<Rightarrow> (Inl e, w')
      | (Inr _, w') \<Rightarrow> add_each E opts ds w')"

section \<open>A sample application\<close>

text \<open>A host application in \<^verbatim>\<open>/app\<close> with two plugins under \<^verbatim>\<open>/plugins\<close>, the second
  of which fails to load; every theorem below with a hypothesis is instantiated on it.\<close>

definition app_plugin :: plugin where
  "app_plugin =
     \<lparr>plugin_name = ''app'', directory = ''/app'', hidden = False,
      commands = [Command ''status'' [''st''] [Command ''short'' [] []]],
      plugin_extensions = [\<lparr>name = ''strings'', setup_fn = Closure 0\<rparr>]\<rparr>"

definition git_plugin :: plugin where
  "git_plugin =
     \<lparr>plugin_name = ''git'', directory = ''/plugins/git'', hidden = False,
      commands = [Command ''status'' [] [], Command ''push'' [] []],
      plugin_extensions = [\<lparr>name = ''print'', setup_fn = Closure 1\<rparr>,
                           \<lparr>name = ''git'', setup_fn = Closure 2\<rparr>]\<rparr>"

definition sample_env :: env where
  "sample_env =
     \<lparr>isDirectory = (\<lambda>p. p = ''/app'' \<or> p = ''/plugins'' \<or> p = ''/plugins/git''
                          \<or> p = ''/plugins/zip''),
      isBlank = (\<lambda>s. s = []),
      subdirectories = (\<lambda>p r m h. if p = ''/plugins'' then [''/plugins/git'', ''/plugins/zip''] else []),
      resolve = (\<lambda>p. p),
      loadPluginFromDirectory =
        (\<lambda>p opts. if p = ''/app'' then Inr app_plugin
                   else if p = ''/plugins/git'' then Inr git_plugin
                   else Inl (Error ''bad plugin'')),
      loadConfig = (\<lambda>b v. Inr (Some [''port'' \<mapsto> JStr ''80''])),
      loadCommandFromPreload = (\<lambda>d. Inr (Command (to_str (get_prop d ''name'')) [] [])),
      global_defaultPlugin = None\<rparr>"

text \<open>The same application run where a global \<^verbatim>\<open>defaultPlugin\<close> happens to exist.\<close>

definition sample_env_global :: env where
  "sample_env_global =
     sample_env\<lparr>global_defaultPlugin := Some (JObj [''value'' \<mapsto> JStr ''/app''])\<rparr>"

text \<open>The runtime after the host application is added as the default plugin, and after
  the git plugin is added first and the host application then; where no global
  \<^verbatim>\<open>defaultPlugin\<close> exists the caller goes on after the ReferenceError.\<close>

definition app_loaded :: "env \<Rightarrow> runtime" where
  "app_loaded E =
     run_calls [(E, AddDefaultPlugin ''/app'' Map.empty)] (new_runtime (Some ''app''))"

definition git_then_app :: "env \<Rightarrow> runtime" where
  "git_then_app E =
     run_calls [(E, AddPlugin ''/plugins/git'' Map.empty),
                (E, AddDefaultPlugin ''/app'' Map.empty)] (new_runtime (Some ''app''))"

section \<open>Auxiliary facts about the registry operations\<close>

text \<open>Registering a plugin's extensions appends them in the plugin's order; a plugin
  load that succeeds extends the registries and the store by one plugin each.\<close>

lemma forEach_addExtension:
  "forEach (\<lambda>x. addExtension (name x) (setup_fn x)) xs w
     = (Inr (), w\<lparr>extensions := extensions w @ xs\<rparr>)"
  by (induction xs arbitrary: w) (simp_all add: addExtension_def)

lemma loader_options_brand:
  "brand w' = brand w \<Longrightarrow> loader_options w' opts = loader_options w opts"
  by (simp add: loader_options_def brand_val_def)

lemma addPlugin_loaded:
  "isDirectory E d \<Longrightarrow> loadPluginFromDirectory E (resolve E d) (loader_options w opts) = Inr p \<Longrightarrow>
   addPlugin E d opts w =
     (Inr This, w\<lparr>plugins := plugins w @ [PluginAt (length (heap w))],
                  heap := heap w @ [p],
                  extensions := extensions w @ plugin_extensions p\<rparr>)"
  by (simp add: addPlugin_def forEach_addExtension)

lemma addPlugin_load_failed:
  "isDirectory E d \<Longrightarrow> loadPluginFromDirectory E (resolve E d) (loader_options w opts) = Inl e \<Longrightarrow>
   addPlugin E d opts w = (Inl e, w)"
  by (simp add: addPlugin_def)

lemma addPlugin_not_directory:
  "\<not> isDirectory E d \<Longrightarrow>
   addPlugin E d opts w =
     (if truthy (get_prop opts ''required'')
      then (Inl (Error (''Error: couldn't load plugin (not a directory): '' @ d)), w)
      else (Inr This, w))"
  by (simp add: addPlugin_def)

lemma addPlugin_returns_this:
  "addPlugin E d opts w = (Inr r, w') \<Longrightarrow> r = This"
  by (auto simp: addPlugin_def forEach_addExtension split: if_splits sum.splits)

lemma addPlugin_cases:
  "(addPlugin E d opts w = (Inr This, w)) \<or>
   (\<exists>e. addPlugin E d opts w = (Inl e, w)) \<or>
   (\<exists>p. addPlugin E d opts w =
     (Inr This, w\<lparr>plugins := plugins w @ [PluginAt (length (heap w))],
                  heap := heap w @ [p],
                  extensions := extensions w @ plugin_extensions p\<rparr>))"
  by (auto simp: addPlugin_def forEach_addExtension split: if_splits sum.splits)


lemma addPlugin_brand: "brand (snd (addPlugin E d opts w)) = brand w"
  using addPlugin_cases [of E d opts w] by auto

lemma addPlugin_extends:
  "take (length (extensions w)) (extensions (snd (addPlugin E d opts w))) = extensions w"
  using addPlugin_cases [of E d opts w] by auto

lemma forEach_extends:
  assumes "\<And>x w. take (length (extensions w)) (extensions (snd (f x w))) = extensions w"
  shows "take (length (extensions w)) (extensions (snd (forEach f xs w))) = extensions w"
proof (induction xs arbitrary: w)
  case Nil
  show ?case by simp
next
  case (Cons x xs)
  obtain r w1 where step: "f x w = (r, w1)" by (cases "f x w")
  have ext1: "take (length (extensions w)) (extensions w1) = extensions w"
    using assms [of w x] step by simp
  show ?case
  proof (cases r)
    case (Inl e)
    then show ?thesis using step ext1 by simp
  next
    case (Inr v)
    have "take (length (extensions w1)) (extensions (snd (forEach f xs w1))) = extensions w1"
      by (rule Cons.IH)
    then have "take (length (extensions w)) (extensions (snd (forEach f xs w1))) = extensions w"
      using ext1 by (metis append_eq_conv_conj append_take_drop_id append.assoc)
    then show ?thesis using step Inr by simp
  qed
qed

lemma addPlugins_extends:
  "take (length (extensions w)) (extensions (snd (addPlugins E d opts w))) = extensions w"
proof -
  let ?loop = "forEach (\<lambda>x. addPlugin E x (dissoc ''matching'' opts))
                 (subdirectories E d False (get_prop opts ''matching'') True) w"
  obtain r w' where loop: "?loop = (r, w')" by (cases ?loop)
  have "take (length (extensions w)) (extensions (snd ?loop)) = extensions w"
    by (rule forEach_extends) (rule addPlugin_extends)
  then have "take (length (extensions w)) (extensions w') = extensions w"
    using loop by simp
  then show ?thesis
    using loop by (cases r) (simp_all add: addPlugins_def)
qed

lemma addDefaultPlugin_extends:
  "take (length (extensions w)) (extensions (snd (addDefaultPlugin E d opts w))) = extensions w"
  using addPlugin_extends [of w E d "default_plugin_options w opts"]
  by (auto simp: addDefaultPlugin_def Let_def split: prod.splits sum.splits option.splits)

lemma addCommand_extensions:
  "extensions (snd (addCommand E cmd w)) = extensions w"
  by (auto simp: addCommand_def split: sum.splits ref.splits)

lemma exec_extends:
  "take (length (extensions w)) (extensions (snd (exec E c w))) = extensions w"
  by (cases c)
     (simp_all add: addExtension_def addPlugin_extends addPlugins_extends
        addDefaultPlugin_extends addCommand_extensions)

lemma run_calls_extends:
  "take (length (extensions w)) (extensions (run_calls cs w)) = extensions w"
proof (induction cs arbitrary: w)
  case Nil
  show ?case by simp
next
  case (Cons a cs)
  obtain E c where a: "a = (E, c)" by (cases a)
  have "take (length (extensions (snd (exec E c w))))
          (extensions (run_calls cs (snd (exec E c w)))) = extensions (snd (exec E c w))"
    by (rule Cons.IH)
  then show ?case
    using exec_extends [of w E c] a
    by (metis append_eq_conv_conj append_take_drop_id append.assoc run_calls.simps(2))
qed


lemma forEach_append:
  "forEach f (xs @ ys) w =
     (case forEach f xs w of (Inl e, w') \<Rightarrow> (Inl e, w') | (Inr u, w') \<Rightarrow> forEach f ys w')"
  by (induction xs arbitrary: w) (auto split: prod.splits sum.splits)

lemma upt_shift: "[n..<Suc (n + k)] = n # [Suc n..<Suc (n + k)]"
  by (rule upt_conv_Cons) simp

lemma forEach_addPlugin_loaded:
  "list_all2 (\<lambda>x p. isDirectory E x \<and>
       loadPluginFromDirectory E (resolve E x) (loader_options w opts) = Inr p) ds ps \<Longrightarrow>
   forEach (\<lambda>x. addPlugin E x opts) ds w =
     (Inr (), w\<lparr>plugins := plugins w @ map PluginAt [length (heap w)..<length (heap w) + length ps],
                 heap := heap w @ ps,
                 extensions := extensions w @ concat (map plugin_extensions ps)\<rparr>)"
proof (induction ds arbitrary: w ps)
  case Nil
  then show ?case by simp
next
  case (Cons x ds)
  from Cons.prems obtain p ps' where ps: "ps = p # ps'"
    and x: "isDirectory E x" "loadPluginFromDirectory E (resolve E x) (loader_options w opts) = Inr p"
    and rest: "list_all2 (\<lambda>x p. isDirectory E x \<and>
       loadPluginFromDirectory E (resolve E x) (loader_options w opts) = Inr p) ds ps'"
    by (auto simp: list_all2_Cons1)
  let ?w1 = "w\<lparr>plugins := plugins w @ [PluginAt (length (heap w))],
               heap := heap w @ [p],
               extensions := extensions w @ plugin_extensions p\<rparr>"
  have step: "addPlugin E x opts w = (Inr This, ?w1)"
    using x by (rule addPlugin_loaded)
  have same: "loader_options ?w1 opts = loader_options w opts"
    by (rule loader_options_brand) simp
  have "forEach (\<lambda>x. addPlugin E x opts) ds ?w1 =
     (Inr (), ?w1\<lparr>plugins := plugins ?w1 @ map PluginAt [length (heap ?w1)..<length (heap ?w1) + length ps'],
                 heap := heap ?w1 @ ps',
                 extensions := extensions ?w1 @ concat (map plugin_extensions ps')\<rparr>)"
    by (rule Cons.IH) (use rest same in simp)
  then show ?case
    using step ps by (simp add: upt_shift del: upt_Suc)
qed

text \<open>The source's loop over the subdirectories and the batch in the specification's
  words agree.\<close>

lemma add_each_forEach:
  "(case forEach (\<lambda>x. addPlugin E x opts) ds w of
      (Inl e, w') \<Rightarrow> (Inl e, w')
    | (Inr u, w') \<Rightarrow> (Inr This, w')) = add_each E opts ds w"
proof (induction ds arbitrary: w)
  case Nil
  show ?case by simp
next
  case (Cons x ds)
  obtain r w1 where step: "addPlugin E x opts w = (r, w1)" by (cases "addPlugin E x opts w")
  show ?case
  proof (cases r)
    case (Inl e)
    then show ?thesis using step by simp
  next
    case (Inr v)
    then show ?thesis using step Cons.IH [of w1] by simp
  qed
qed

text \<open>The fields of a new runtime, the search order under a default plugin, and the brand
  under \<^verbatim>\<open>addPlugin\<close>.\<close>

lemma new_runtime_fields:
  "brand (new_runtime b) = b" "plugins (new_runtime b) = []" "heap (new_runtime b) = []"
  "defaultPlugin (new_runtime b) = Null" "defaults (new_runtime b) = JObj Map.empty"
  "config (new_runtime b) = Map.empty"
  by (simp_all add: new_runtime_def addCoreExtensions_def addExtension_def)

lemma isNil_iff: "isNil r \<longleftrightarrow> r = Null"
  by (cases r) simp_all

lemma search_order_default:
  "defaultPlugin w = PluginAt a \<Longrightarrow>
   search_order w = PluginAt a # filter (\<lambda>p. p \<noteq> PluginAt a \<and> p \<noteq> Null) (plugins w)"
  by (simp add: search_order_def isNil_iff)

lemma addPlugin_brand_val:
  "addPlugin E d opts w = (r, w1) \<Longrightarrow> brand_val w1 = brand_val w"
  using addPlugin_brand [of E d opts w] by (simp add: brand_val_def)

text \<open>What the resolver and \<^verbatim>\<open>addCommand\<close> do on a runtime whose field
  \<^verbatim>\<open>defaultPlugin\<close> refers to a Plugin of the store.\<close>

lemma findCommand_on_plugin:
  assumes "defaultPlugin w = PluginAt a"
    and "a < length (heap w)"
    and "match_plugin (heap w ! a) tokens = Some (c, rest)"
  shows "search_order w = PluginAt a # filter (\<lambda>p. p \<noteq> PluginAt a \<and> p \<noteq> Null) (plugins w)
       \<and> findCommand w \<lparr>array = tokens, options = opts\<rparr> = Some (PluginAt a, c, rest)"
  using assms
  by (simp add: search_order_default findCommand_def runtime_find_command_def match_ref_def)

lemma addCommand_on_plugin:
  "(defaultPlugin w = Null \<longrightarrow>
      addCommand E cmd w =
        (Inl (Error (''Can't add command '' @ to_str (get_prop cmd ''name'') @
           '' - no default plugin. You may have forgotten a src() on your runtime.'')), w))
   \<and> (defaultPlugin w = PluginAt a \<and> a < length (heap w) \<and> loadCommandFromPreload E cmd = Inr c \<longrightarrow>
        fst (addCommand E cmd w) = Inr This
        \<and> commands (heap (snd (addCommand E cmd w)) ! a) = c # commands (heap w ! a)
        \<and> commands (heap (snd (addCommand E cmd w)) ! a) ! 0 = c
        \<and> length (heap (snd (addCommand E cmd w))) = length (heap w)
        \<and> (\<forall>b. b \<noteq> a \<longrightarrow> heap (snd (addCommand E cmd w)) ! b = heap w ! b)
        \<and> plugins (snd (addCommand E cmd w)) = plugins w
        \<and> defaultPlugin (snd (addCommand E cmd w)) = PluginAt a
        \<and> extensions (snd (addCommand E cmd w)) = extensions w)"
  by (simp add: addCommand_def)

text \<open>No builder call stores a Plugin in the field \<^verbatim>\<open>defaultPlugin\<close>: the only write is
  line 108, which stores what \<^verbatim>\<open>addPlugin\<close> returned. So on every runtime built from the
  constructor by builder calls the field is null or the Runtime itself, and
  \<^verbatim>\<open>addCommand\<close> never returns.\<close>

lemma addPlugin_defaultPlugin:
  "defaultPlugin (snd (addPlugin E d opts w)) = defaultPlugin w"
  using addPlugin_cases [of E d opts w] by auto

lemma forEach_defaultPlugin:
  assumes "\<And>x w. defaultPlugin (snd (f x w)) = defaultPlugin w"
  shows "defaultPlugin (snd (forEach f xs w)) = defaultPlugin w"
proof (induction xs arbitrary: w)
  case Nil
  show ?case by simp
next
  case (Cons x xs)
  obtain r w1 where step: "f x w = (r, w1)" by (cases "f x w")
  have keep: "defaultPlugin w1 = defaultPlugin w"
    using assms [of x w] step by simp
  show ?case
  proof (cases r)
    case (Inl e)
    then show ?thesis using step keep by simp
  next
    case (Inr v)
    then show ?thesis using step keep Cons.IH [of w1] by simp
  qed
qed

lemma addPlugins_defaultPlugin:
  "defaultPlugin (snd (addPlugins E d opts w)) = defaultPlugin w"
proof -
  let ?loop = "forEach (\<lambda>x. addPlugin E x (dissoc ''matching'' opts))
                 (subdirectories E d False (get_prop opts ''matching'') True) w"
  obtain r w' where loop: "?loop = (r, w')" by (cases ?loop)
  have "defaultPlugin (snd ?loop) = defaultPlugin w"
    by (rule forEach_defaultPlugin) (rule addPlugin_defaultPlugin)
  then have "defaultPlugin w' = defaultPlugin w"
    using loop by simp
  then show ?thesis
    using loop by (cases r) (simp_all add: addPlugins_def)
qed

lemma addDefaultPlugin_defaultPlugin:
  "defaultPlugin (snd (addDefaultPlugin E d opts w)) = defaultPlugin w
   \<or> defaultPlugin (snd (addDefaultPlugin E d opts w)) = This"
proof -
  obtain r w1 where step: "addPlugin E d (default_plugin_options w opts) w = (r, w1)"
    by (cases "addPlugin E d (default_plugin_options w opts) w")
  have keep: "defaultPlugin w1 = defaultPlugin w"
    using addPlugin_defaultPlugin [of E d "default_plugin_options w opts" w] step by simp
  show ?thesis
  proof (cases r)
    case (Inl e)
    then show ?thesis using step keep by (simp add: addDefaultPlugin_def)
  next
    case (Inr v)
    then have "v = This" using step addPlugin_returns_this by blast
    then show ?thesis
      using step Inr
      by (auto simp: addDefaultPlugin_def Let_def split: option.splits sum.splits)
  qed
qed

lemma addCommand_defaultPlugin:
  "defaultPlugin (snd (addCommand E cmd w)) = defaultPlugin w"
  by (auto simp: addCommand_def split: sum.splits ref.splits)

lemma exec_defaultPlugin:
  "defaultPlugin (snd (exec E c w)) = defaultPlugin w \<or> defaultPlugin (snd (exec E c w)) = This"
  by (cases c)
     (simp_all add: addExtension_def addPlugin_defaultPlugin addPlugins_defaultPlugin
        addDefaultPlugin_defaultPlugin addCommand_defaultPlugin)

lemma run_calls_defaultPlugin:
  "defaultPlugin w = Null \<or> defaultPlugin w = This \<Longrightarrow>
   defaultPlugin (run_calls cs w) = Null \<or> defaultPlugin (run_calls cs w) = This"
proof (induction cs arbitrary: w)
  case Nil
  then show ?case by simp
next
  case (Cons a cs)
  obtain E c where a: "a = (E, c)" by (cases a)
  have "defaultPlugin (snd (exec E c w)) = Null \<or> defaultPlugin (snd (exec E c w)) = This"
    using exec_defaultPlugin [of E c w] Cons.prems by auto
  then show ?case
    using Cons.IH [of "snd (exec E c w)"] a by simp
qed

lemma reachable_defaultPlugin:
  "defaultPlugin (run_calls cs (new_runtime b)) = Null
   \<or> defaultPlugin (run_calls cs (new_runtime b)) = This"
  by (rule run_calls_defaultPlugin) (simp add: new_runtime_fields)

lemma addCommand_never_returns:
  "fst (addCommand E cmd (run_calls cs (new_runtime b))) \<noteq> Inr r"
  using reachable_defaultPlugin [of cs b]
  by (auto simp: addCommand_def split: sum.splits)

text \<open>The sample application after the calls.\<close>

lemma git_then_app_state:
  "plugins (git_then_app sample_env) = [PluginAt 0, PluginAt 1]"
  "heap (git_then_app sample_env) = [git_plugin, app_plugin]"
  "defaultPlugin (git_then_app sample_env) = This"
  "plugins (git_then_app sample_env_global) = [PluginAt 0, PluginAt 1]"
  "heap (git_then_app sample_env_global) = [git_plugin, app_plugin]"
  "defaultPlugin (git_then_app sample_env_global) = This"
  by (simp_all add: git_then_app_def addDefaultPlugin_def addPlugin_def forEach_addExtension
        get_prop_def brand_val_def new_runtime_fields sample_env_global_def sample_env_def)

lemma app_loaded_state:
  "plugins (app_loaded sample_env) = [PluginAt 0]"
  "heap (app_loaded sample_env) = [app_plugin]"
  "defaultPlugin (app_loaded sample_env) = This"
  "plugins (app_loaded sample_env_global) = [PluginAt 0]"
  "heap (app_loaded sample_env_global) = [app_plugin]"
  "defaultPlugin (app_loaded sample_env_global) = This"
  by (simp_all add: app_loaded_def addDefaultPlugin_def addPlugin_def forEach_addExtension
        get_prop_def brand_val_def new_runtime_fields sample_env_global_def sample_env_def)

lemma sample_matches:
  "match_plugin git_plugin [''status''] = Some (Command ''status'' [] [], [])"
  "match_plugin app_plugin [''status'']
     = Some (Command ''status'' [''st''] [Command ''short'' [] []], [])"
  by (simp_all add: match_plugin_def git_plugin_def app_plugin_def matches_def)

section \<open>Theorems\<close>

text \<open>
  C1. \<^verbatim>\<open>findCommand\<close> should search the default plugin first, so that of two plugins
  that both define a matching command the default plugin's is returned, whenever the other
  was registered. On the sample application with the git plugin registered first and the
  host application then added as the default plugin, the field \<^verbatim>\<open>defaultPlugin\<close> holds the
  Runtime itself, so the order of lines 179 and 180 starts with the Runtime (which has no
  command tree) and goes on in registration order: for the token status the git plugin's
  command is returned, although the host application's plugin defines status too. The
  result is the same whether the call of \<^verbatim>\<open>addDefaultPlugin\<close> returned or threw on line 111.
\<close>

theorem findCommand_after_addDefaultPlugin:
  "fst (exec sample_env_global (AddDefaultPlugin ''/app'' Map.empty)
          (snd (exec sample_env_global (AddPlugin ''/plugins/git'' Map.empty)
             (new_runtime (Some ''app''))))) = Inr This
   \<and> plugins (git_then_app sample_env_global) = [PluginAt 0, PluginAt 1]
   \<and> heap (git_then_app sample_env_global) = [git_plugin, app_plugin]
   \<and> defaultPlugin (git_then_app sample_env_global) = This
   \<and> search_order (git_then_app sample_env_global) = [This, PluginAt 0, PluginAt 1]
   \<and> match_plugin app_plugin [''status'']
        = Some (Command ''status'' [''st''] [Command ''short'' [] []], [])
   \<and> findCommand (git_then_app sample_env_global) \<lparr>array = [''status''], options = Map.empty\<rparr>
        = Some (PluginAt 0, Command ''status'' [] [], [])
   \<and> search_order (git_then_app sample_env) = [This, PluginAt 0, PluginAt 1]
   \<and> findCommand (git_then_app sample_env) \<lparr>array = [''status''], options = Map.empty\<rparr>
        = Some (PluginAt 0, Command ''status'' [] [], [])"
proof -
  have ret: "fst (exec sample_env_global (AddDefaultPlugin ''/app'' Map.empty)
          (snd (exec sample_env_global (AddPlugin ''/plugins/git'' Map.empty)
             (new_runtime (Some ''app''))))) = Inr This"
    by (simp add: addDefaultPlugin_def addPlugin_def forEach_addExtension
        get_prop_def brand_val_def new_runtime_fields sample_env_global_def sample_env_def)
  have order: "search_order (git_then_app sample_env_global) = [This, PluginAt 0, PluginAt 1]"
    "search_order (git_then_app sample_env) = [This, PluginAt 0, PluginAt 1]"
    by (simp_all add: search_order_def git_then_app_state)
  have found: "findCommand (git_then_app sample_env_global) \<lparr>array = [''status''], options = Map.empty\<rparr>
        = Some (PluginAt 0, Command ''status'' [] [], [])"
    "findCommand (git_then_app sample_env) \<lparr>array = [''status''], options = Map.empty\<rparr>
        = Some (PluginAt 0, Command ''status'' [] [], [])"
    by (simp_all add: findCommand_def runtime_find_command_def order match_ref_def
          git_then_app_state sample_matches)
  show ?thesis
    using ret order found by (simp add: git_then_app_state sample_matches)
qed

text \<open>
  C2. After \<^verbatim>\<open>addDefaultPlugin\<close> the field \<^verbatim>\<open>defaultPlugin\<close> should refer to the Plugin
  that was loaded and appended to the registry, and configuration aggregation should follow.
  On the sample application the plugin is loaded and registered at address 0, but the field
  holds the Runtime itself, which is what \<^verbatim>\<open>addPlugin\<close> returns; the call then ends in a
  ReferenceError before any configuration is loaded, and where a global \<^verbatim>\<open>defaultPlugin\<close>
  exists it returns with the field still holding the Runtime, so that a following
  \<^verbatim>\<open>addCommand\<close> finds no command sequence to insert into.
\<close>

theorem addDefaultPlugin_default_is_runtime:
  "isDirectory sample_env ''/app''
   \<and> fst (addDefaultPlugin sample_env ''/app'' Map.empty (new_runtime (Some ''app'')))
       = Inl (ReferenceError ''defaultPlugin is not defined'')
   \<and> plugins (snd (addDefaultPlugin sample_env ''/app'' Map.empty (new_runtime (Some ''app''))))
       = [PluginAt 0]
   \<and> heap (snd (addDefaultPlugin sample_env ''/app'' Map.empty (new_runtime (Some ''app''))))
       = [app_plugin]
   \<and> defaultPlugin (snd (addDefaultPlugin sample_env ''/app'' Map.empty (new_runtime (Some ''app''))))
       = This
   \<and> config (snd (addDefaultPlugin sample_env ''/app'' Map.empty (new_runtime (Some ''app''))))
       = Map.empty
   \<and> fst (addDefaultPlugin sample_env_global ''/app'' Map.empty (new_runtime (Some ''app'')))
       = Inr This
   \<and> plugins (snd (addDefaultPlugin sample_env_global ''/app'' Map.empty (new_runtime (Some ''app''))))
       = [PluginAt 0]
   \<and> defaultPlugin (snd (addDefaultPlugin sample_env_global ''/app'' Map.empty (new_runtime (Some ''app''))))
       = This
   \<and> fst (addCommand sample_env_global [''name'' \<mapsto> JStr ''deploy'']
        (snd (addDefaultPlugin sample_env_global ''/app'' Map.empty (new_runtime (Some ''app'')))))
       = Inl (TypeError ''Cannot read property unshift of undefined'')"
  by (simp add: addDefaultPlugin_def addPlugin_def forEach_addExtension get_prop_def brand_val_def
        addCommand_def new_runtime_fields sample_env_global_def sample_env_def)

text \<open>
  C3. On a new runtime \<^verbatim>\<open>addCommand\<close> throws the error that carries the command's name.
  After \<^verbatim>\<open>addDefaultPlugin\<close> the command should be inserted at index 0 of the default
  plugin's command sequence. On the sample application the plugin is loaded, but the field
  \<^verbatim>\<open>defaultPlugin\<close> holds the Runtime itself: the call passes the guard of line 75, runs
  the preloader and then throws a TypeError on line 81, and the plugin's commands are as
  they were loaded. The result is the same whether the call of \<^verbatim>\<open>addDefaultPlugin\<close>
  returned or threw on line 111.
\<close>

theorem addCommand_after_addDefaultPlugin:
  "addCommand sample_env_global [''name'' \<mapsto> JStr ''deploy''] (new_runtime (Some ''app''))
       = (Inl (Error ''Can't add command deploy - no default plugin. You may have forgotten a src() on your runtime.''),
          new_runtime (Some ''app''))
   \<and> fst (exec sample_env_global (AddDefaultPlugin ''/app'' Map.empty) (new_runtime (Some ''app'')))
       = Inr This
   \<and> plugins (app_loaded sample_env_global) = [PluginAt 0]
   \<and> heap (app_loaded sample_env_global) = [app_plugin]
   \<and> defaultPlugin (app_loaded sample_env_global) = This
   \<and> loadCommandFromPreload sample_env_global [''name'' \<mapsto> JStr ''deploy'']
       = Inr (Command ''deploy'' [] [])
   \<and> addCommand sample_env_global [''name'' \<mapsto> JStr ''deploy''] (app_loaded sample_env_global)
       = (Inl (TypeError ''Cannot read property unshift of undefined''),
          app_loaded sample_env_global)
   \<and> commands (heap (snd (addCommand sample_env_global [''name'' \<mapsto> JStr ''deploy'']
        (app_loaded sample_env_global))) ! 0)
       = [Command ''status'' [''st''] [Command ''short'' [] []]]
   \<and> defaultPlugin (app_loaded sample_env) = This
   \<and> addCommand sample_env [''name'' \<mapsto> JStr ''deploy''] (app_loaded sample_env)
       = (Inl (TypeError ''Cannot read property unshift of undefined''), app_loaded sample_env)"
proof -
  have ret: "fst (exec sample_env_global (AddDefaultPlugin ''/app'' Map.empty)
          (new_runtime (Some ''app''))) = Inr This"
    by (simp add: addDefaultPlugin_def addPlugin_def forEach_addExtension
        get_prop_def brand_val_def new_runtime_fields sample_env_global_def sample_env_def)
  have pre: "loadCommandFromPreload sample_env_global [''name'' \<mapsto> JStr ''deploy'']
       = Inr (Command ''deploy'' [] [])"
    "loadCommandFromPreload sample_env [''name'' \<mapsto> JStr ''deploy'']
       = Inr (Command ''deploy'' [] [])"
    by (simp_all add: sample_env_global_def sample_env_def get_prop_def)
  have thrown: "addCommand sample_env_global [''name'' \<mapsto> JStr ''deploy''] (app_loaded sample_env_global)
       = (Inl (TypeError ''Cannot read property unshift of undefined''),
          app_loaded sample_env_global)"
    "addCommand sample_env [''name'' \<mapsto> JStr ''deploy''] (app_loaded sample_env)
       = (Inl (TypeError ''Cannot read property unshift of undefined''), app_loaded sample_env)"
    by (simp_all add: addCommand_def app_loaded_state pre)
  have before: "addCommand sample_env_global [''name'' \<mapsto> JStr ''deploy''] (new_runtime (Some ''app''))
       = (Inl (Error ''Can't add command deploy - no default plugin. You may have forgotten a src() on your runtime.''),
          new_runtime (Some ''app''))"
    by (simp add: addCommand_def new_runtime_fields get_prop_def)
  show ?thesis
    using before ret pre thrown by (simp add: app_loaded_state app_plugin_def)
qed

text \<open>
  C4. For a path that is not an existing directory, \<^verbatim>\<open>addPlugin\<close> with required true
  throws an error whose message ends with the path; with required false or absent it
  returns the runtime unchanged: same plugins, same extension sequence.
\<close>

theorem addPlugin_not_a_directory:
  assumes "\<not> isDirectory E d"
  shows "(opts ''required'' = Some (JBool True) \<longrightarrow>
            addPlugin E d opts w =
              (Inl (Error (''Error: couldn't load plugin (not a directory): '' @ d)), w))
       \<and> (opts ''required'' = Some (JBool False) \<or> opts ''required'' = None \<longrightarrow>
            addPlugin E d opts w = (Inr This, w)
            \<and> length (plugins (snd (addPlugin E d opts w))) = length (plugins w)
            \<and> extensions (snd (addPlugin E d opts w)) = extensions w)"
  using assms by (auto simp: addPlugin_not_directory get_prop_def)

text \<open>
  The sample application has no directory \<^verbatim>\<open>/nonexistent\<close>.
\<close>

theorem addPlugin_not_a_directory_witness:
  "\<not> isDirectory sample_env ''/nonexistent''
   \<and> addPlugin sample_env ''/nonexistent'' [''required'' \<mapsto> JBool True] (new_runtime None) =
       (Inl (Error ''Error: couldn't load plugin (not a directory): /nonexistent''), new_runtime None)
   \<and> addPlugin sample_env ''/nonexistent'' Map.empty (new_runtime None) = (Inr This, new_runtime None)"
proof -
  have nd: "\<not> isDirectory sample_env ''/nonexistent''"
    by (simp add: sample_env_def)
  show ?thesis
    using nd
      addPlugin_not_a_directory [OF nd, of "[''required'' \<mapsto> JBool True]" "new_runtime None"]
      addPlugin_not_a_directory [OF nd, of Map.empty "new_runtime None"]
    by simp
qed

text \<open>
  C5, as stated: \<^verbatim>\<open>addDefaultPlugin\<close> always calls \<^verbatim>\<open>addPlugin\<close> with required equal to
  true, also when the caller sets required to false. It does not: the caller's false
  reaches \<^verbatim>\<open>addPlugin\<close>, whose check of the missing directory then returns instead of
  throwing as it does with required true.
\<close>

theorem required_not_forced_counterexample:
  "default_plugin_options (new_runtime (Some ''app'')) [''required'' \<mapsto> JBool False] ''required''
     = Some (JBool False)
   \<and> \<not> isDirectory sample_env ''/nonexistent''
   \<and> addPlugin sample_env ''/nonexistent''
         (default_plugin_options (new_runtime (Some ''app'')) [''required'' \<mapsto> JBool False])
         (new_runtime (Some ''app'')) = (Inr This, new_runtime (Some ''app''))
   \<and> fst (addDefaultPlugin sample_env ''/nonexistent'' [''required'' \<mapsto> JBool False]
          (new_runtime (Some ''app''))) = Inl (ReferenceError ''defaultPlugin is not defined'')
   \<and> fst (addDefaultPlugin sample_env_global ''/nonexistent'' [''required'' \<mapsto> JBool False]
          (new_runtime (Some ''app''))) = Inr This
   \<and> fst (addDefaultPlugin sample_env_global ''/nonexistent'' [''required'' \<mapsto> JBool True]
          (new_runtime (Some ''app'')))
       = Inl (Error ''Error: couldn't load plugin (not a directory): /nonexistent'')"
  by (simp add: default_plugin_options_def assign_def addDefaultPlugin_def addPlugin_def
        get_prop_def sample_env_global_def sample_env_def)

text \<open>
  C5, amended: the options \<^verbatim>\<open>addDefaultPlugin\<close> hands to \<^verbatim>\<open>addPlugin\<close> are the caller's
  options, with required set to true and name set to the runtime's brand only where the
  caller did not supply that key; a required supplied by the caller, false included, is
  passed on as it is. On a path that is not a directory the call throws when the resulting
  required is truthy, and the \<^verbatim>\<open>addPlugin\<close> step returns otherwise.
\<close>

theorem default_plugin_options_precedence:
  "default_plugin_options w opts =
     opts(''required'' \<mapsto> (case opts ''required'' of None \<Rightarrow> JBool True | Some v \<Rightarrow> v),
          ''name'' \<mapsto> (case opts ''name'' of None \<Rightarrow> brand_val w | Some v \<Rightarrow> v))
   \<and> (\<not> isDirectory E d
        \<and> truthy (case opts ''required'' of None \<Rightarrow> JBool True | Some v \<Rightarrow> v) \<longrightarrow>
        addDefaultPlugin E d opts w =
          (Inl (Error (''Error: couldn't load plugin (not a directory): '' @ d)), w))
   \<and> (\<not> isDirectory E d
        \<and> \<not> truthy (case opts ''required'' of None \<Rightarrow> JBool True | Some v \<Rightarrow> v) \<longrightarrow>
        addPlugin E d (default_plugin_options w opts) w = (Inr This, w))"
proof -
  have merged: "default_plugin_options w opts =
     opts(''required'' \<mapsto> (case opts ''required'' of None \<Rightarrow> JBool True | Some v \<Rightarrow> v),
          ''name'' \<mapsto> (case opts ''name'' of None \<Rightarrow> brand_val w | Some v \<Rightarrow> v))"
    by (auto simp: default_plugin_options_def assign_def map_add_def fun_eq_iff
          split: option.splits)
  have req: "get_prop (default_plugin_options w opts) ''required''
      = (case opts ''required'' of None \<Rightarrow> JBool True | Some v \<Rightarrow> v)"
    by (simp add: merged get_prop_def)
  show ?thesis
    using merged req by (simp add: addDefaultPlugin_def addPlugin_not_directory)
qed

text \<open>
  No options, and options that set both keys.
\<close>

theorem default_plugin_options_precedence_witness:
  "default_plugin_options (new_runtime (Some ''app'')) Map.empty
     = [''required'' \<mapsto> JBool True, ''name'' \<mapsto> JStr ''app'']
   \<and> default_plugin_options (new_runtime (Some ''app''))
        [''required'' \<mapsto> JBool False, ''name'' \<mapsto> JStr ''cli'']
     = [''required'' \<mapsto> JBool False, ''name'' \<mapsto> JStr ''cli'']
   \<and> \<not> isDirectory sample_env ''/nonexistent''
   \<and> addDefaultPlugin sample_env ''/nonexistent'' Map.empty (new_runtime (Some ''app'')) =
       (Inl (Error ''Error: couldn't load plugin (not a directory): /nonexistent''),
        new_runtime (Some ''app''))
   \<and> addPlugin sample_env ''/nonexistent''
        (default_plugin_options (new_runtime (Some ''app''))
           [''required'' \<mapsto> JBool False, ''name'' \<mapsto> JStr ''cli''])
        (new_runtime (Some ''app'')) = (Inr This, new_runtime (Some ''app''))"
proof -
  have nd: "\<not> isDirectory sample_env ''/nonexistent''"
    by (simp add: sample_env_def)
  have b: "brand_val (new_runtime (Some ''app'')) = JStr ''app''"
    by (simp add: brand_val_def new_runtime_fields)
  note t1 = default_plugin_options_precedence [of "new_runtime (Some ''app'')" Map.empty
        sample_env "''/nonexistent''"]
  note t2 = default_plugin_options_precedence [of "new_runtime (Some ''app'')"
        "[''required'' \<mapsto> JBool False, ''name'' \<mapsto> JStr ''cli'']" sample_env "''/nonexistent''"]
  have c1: "default_plugin_options (new_runtime (Some ''app'')) Map.empty
     = [''required'' \<mapsto> JBool True, ''name'' \<mapsto> JStr ''app'']"
    using t1 b by simp
  have c2: "default_plugin_options (new_runtime (Some ''app''))
        [''required'' \<mapsto> JBool False, ''name'' \<mapsto> JStr ''cli'']
     = [''required'' \<mapsto> JBool False, ''name'' \<mapsto> JStr ''cli'']"
    using t2 by simp
  have c3: "addDefaultPlugin sample_env ''/nonexistent'' Map.empty (new_runtime (Some ''app'')) =
       (Inl (Error ''Error: couldn't load plugin (not a directory): /nonexistent''),
        new_runtime (Some ''app''))"
    using t1 nd by simp
  have c4: "addPlugin sample_env ''/nonexistent''
        (default_plugin_options (new_runtime (Some ''app''))
           [''required'' \<mapsto> JBool False, ''name'' \<mapsto> JStr ''cli''])
        (new_runtime (Some ''app'')) = (Inr This, new_runtime (Some ''app''))"
    using t2 [THEN conjunct2, THEN conjunct2] nd by simp
  show ?thesis
    using nd c1 c2 c3 c4 by (intro conjI)
qed

text \<open>
  C6, as stated: after \<^verbatim>\<open>addDefaultPlugin\<close> the field \<^verbatim>\<open>defaults\<close> is an empty object
  when the loaded configuration has no \<^verbatim>\<open>defaults\<close> key, and \<^verbatim>\<open>config\<close> is the loaded
  configuration. The configuration of the sample application is a port and has no such
  key: the call ends before the configuration is loaded, and where it does get that far
  the field \<^verbatim>\<open>defaults\<close> is undefined after it.
\<close>

theorem defaults_not_empty_object_counterexample:
  "fst (addDefaultPlugin sample_env ''/app'' Map.empty (new_runtime (Some ''app'')))
       = Inl (ReferenceError ''defaultPlugin is not defined'')
   \<and> config (snd (addDefaultPlugin sample_env ''/app'' Map.empty (new_runtime (Some ''app''))))
       ''port'' = None
   \<and> loadConfig sample_env_global (JStr ''app'') (JStr ''/app'') = Inr (Some [''port'' \<mapsto> JStr ''80''])
   \<and> fst (addDefaultPlugin sample_env_global ''/app'' Map.empty (new_runtime (Some ''app''))) = Inr This
   \<and> defaults (snd (addDefaultPlugin sample_env_global ''/app'' Map.empty (new_runtime (Some ''app''))))
       = JUndefined
   \<and> defaults (snd (addDefaultPlugin sample_env_global ''/app'' Map.empty (new_runtime (Some ''app''))))
       \<noteq> JObj Map.empty"
  by (simp add: addDefaultPlugin_def addPlugin_def forEach_addExtension get_prop_def brand_val_def
        new_runtime_fields sample_env_global_def sample_env_def)

text \<open>
  C6, amended: when \<^verbatim>\<open>addDefaultPlugin\<close> gets as far as the configuration and the
  loader returns, the field \<^verbatim>\<open>defaults\<close> is the value of the loaded configuration's
  \<^verbatim>\<open>defaults\<close> key, undefined when the key is absent or when loading yields nothing, and
  the field \<^verbatim>\<open>config\<close> is the loaded configuration without its \<^verbatim>\<open>defaults\<close> key, the
  empty object when loading yields nothing.
\<close>

theorem config_aggregation:
  assumes "addPlugin E d (default_plugin_options w opts) w = (Inr r, w1)"
    and "global_defaultPlugin E = Some g"
    and "member g ''value'' = Inr v"
    and "loadConfig E (brand_val w) v = Inr loaded"
  shows "fst (addDefaultPlugin E d opts w) = Inr This
       \<and> defaults (snd (addDefaultPlugin E d opts w)) =
           (case loaded of
              None \<Rightarrow> JUndefined
            | Some cfg \<Rightarrow> (case cfg ''defaults'' of None \<Rightarrow> JUndefined | Some x \<Rightarrow> x))
       \<and> config (snd (addDefaultPlugin E d opts w)) =
           (case loaded of None \<Rightarrow> Map.empty | Some cfg \<Rightarrow> cfg(''defaults'' := None))"
proof -
  have "brand_val (w1\<lparr>defaultPlugin := r\<rparr>) = brand_val w"
    using addPlugin_brand_val [OF assms(1)] by (simp add: brand_val_def)
  then show ?thesis
    using assms by (simp add: addDefaultPlugin_def get_prop_def dissoc_def split: option.splits)
qed

text \<open>
  The sample application, whose configuration is a port and nothing else.
\<close>

theorem config_aggregation_witness:
  "global_defaultPlugin sample_env_global = Some (JObj [''value'' \<mapsto> JStr ''/app''])
   \<and> member (JObj [''value'' \<mapsto> JStr ''/app'']) ''value'' = Inr (JStr ''/app'')
   \<and> loadConfig sample_env_global (brand_val (new_runtime (Some ''app''))) (JStr ''/app'')
       = Inr (Some [''port'' \<mapsto> JStr ''80''])
   \<and> fst (addDefaultPlugin sample_env_global ''/app'' Map.empty (new_runtime (Some ''app''))) = Inr This
   \<and> defaults (snd (addDefaultPlugin sample_env_global ''/app'' Map.empty (new_runtime (Some ''app''))))
       = JUndefined
   \<and> config (snd (addDefaultPlugin sample_env_global ''/app'' Map.empty (new_runtime (Some ''app''))))
       ''port'' = Some (JStr ''80'')
   \<and> config (snd (addDefaultPlugin sample_env_global ''/app'' Map.empty (new_runtime (Some ''app''))))
       ''defaults'' = None"
proof -
  let ?w = "new_runtime (Some ''app'')"
  have step: "addPlugin sample_env_global ''/app'' (default_plugin_options ?w Map.empty) ?w =
      (Inr This, ?w\<lparr>plugins := plugins ?w @ [PluginAt (length (heap ?w))],
                  heap := heap ?w @ [app_plugin],
                  extensions := extensions ?w @ plugin_extensions app_plugin\<rparr>)"
    by (rule addPlugin_loaded) (simp_all add: sample_env_global_def sample_env_def)
  have g: "global_defaultPlugin sample_env_global = Some (JObj [''value'' \<mapsto> JStr ''/app''])"
    by (simp add: sample_env_global_def sample_env_def)
  have m: "member (JObj [''value'' \<mapsto> JStr ''/app'']) ''value'' = Inr (JStr ''/app'')"
    by (simp add: get_prop_def)
  have l: "loadConfig sample_env_global (brand_val ?w) (JStr ''/app'')
       = Inr (Some [''port'' \<mapsto> JStr ''80''])"
    by (simp add: sample_env_global_def sample_env_def)
  show ?thesis
    using g m l config_aggregation [OF step g m l] by simp
qed

text \<open>
  C7. The extension registry is append-only with no uniqueness check: \<^verbatim>\<open>addExtension\<close>
  appends its entry whatever is registered already, a loaded plugin's extensions are
  appended in the plugin's order, every builder call leaves the entries present before it in
  place, and so after any sequence of builder calls on a new runtime the ten built-ins still
  occupy the first ten positions: an extension registered later under a built-in's name
  comes after that built-in.
\<close>

theorem extensions_append_only:
  "extensions (snd (addExtension n s w)) = extensions w @ [\<lparr>name = n, setup_fn = s\<rparr>]
   \<and> (isDirectory E d \<and> loadPluginFromDirectory E (resolve E d) (loader_options w opts) = Inr p \<longrightarrow>
        extensions (snd (addPlugin E d opts w)) = extensions w @ plugin_extensions p)
   \<and> take (length (extensions w)) (extensions (snd (exec E c w))) = extensions w
   \<and> take 10 (extensions (run_calls cs (new_runtime b))) = extensions (new_runtime b)"
proof -
  have "length (extensions (new_runtime b)) = 10"
    by (simp add: new_runtime_def addCoreExtensions_def addExtension_def)
  then have "take 10 (extensions (run_calls cs (new_runtime b))) = extensions (new_runtime b)"
    using run_calls_extends [of "new_runtime b" cs] by simp
  then show ?thesis
    by (simp add: addExtension_def addPlugin_loaded exec_extends)
qed

text \<open>
  The git plugin of the sample application brings an extension named print, like
  the built-in; a user then registers another meta.
\<close>

theorem extensions_append_only_witness:
  "isDirectory sample_env ''/plugins/git''
   \<and> loadPluginFromDirectory sample_env (resolve sample_env ''/plugins/git'')
        (loader_options (new_runtime None) Map.empty) = Inr git_plugin
   \<and> extensions (snd (addPlugin sample_env ''/plugins/git'' Map.empty (new_runtime None))) =
       extensions (new_runtime None) @
       [\<lparr>name = ''print'', setup_fn = Closure 1\<rparr>, \<lparr>name = ''git'', setup_fn = Closure 2\<rparr>]
   \<and> take 10 (extensions (run_calls
         [(sample_env, AddPlugin ''/plugins/git'' Map.empty),
          (sample_env, AddExtension ''meta'' (Closure 7))] (new_runtime None))) =
       extensions (new_runtime None)"
proof -
  have dir: "isDirectory sample_env ''/plugins/git''"
    by (simp add: sample_env_def)
  have load: "loadPluginFromDirectory sample_env (resolve sample_env ''/plugins/git'')
        (loader_options (new_runtime None) Map.empty) = Inr git_plugin"
    by (simp add: sample_env_def)
  show ?thesis
    using dir load
      extensions_append_only [of "''meta''" "Closure 7" "new_runtime None" sample_env
        "''/plugins/git''" Map.empty git_plugin "AddExtension ''meta'' (Closure 7)"
        "[(sample_env, AddPlugin ''/plugins/git'' Map.empty),
          (sample_env, AddExtension ''meta'' (Closure 7))]" None]
    by (simp add: git_plugin_def)
qed

text \<open>
  C8. If the plugin loader throws during \<^verbatim>\<open>addPlugin\<close> on an existing directory, the
  call ends with that error and the runtime exactly as it was before the call. In an
  \<^verbatim>\<open>addPlugins\<close> batch whose subdirectories load up to one that fails, the call ends with
  that error and the plugins loaded before it, with their extensions, are registered.
\<close>

theorem plugin_load_failure_aborts:
  "(isDirectory E d \<and> loadPluginFromDirectory E (resolve E d) (loader_options w opts) = Inl e \<longrightarrow>
      addPlugin E d opts w = (Inl e, w))
   \<and> (\<not> isBlank E dir \<and> isDirectory E dir
       \<and> subdirectories E dir False (get_prop bopts ''matching'') True = ds @ d # rest
       \<and> list_all2 (\<lambda>x p. isDirectory E x \<and>
            loadPluginFromDirectory E (resolve E x) (loader_options w (dissoc ''matching'' bopts)) = Inr p) ds ps
       \<and> isDirectory E d
       \<and> loadPluginFromDirectory E (resolve E d) (loader_options w (dissoc ''matching'' bopts)) = Inl e \<longrightarrow>
      addPlugins E dir bopts w =
        (Inl e, w\<lparr>plugins := plugins w @ map PluginAt [length (heap w)..<length (heap w) + length ps],
                  heap := heap w @ ps,
                  extensions := extensions w @ concat (map plugin_extensions ps)\<rparr>))"
proof (intro conjI impI)
  assume "isDirectory E d \<and> loadPluginFromDirectory E (resolve E d) (loader_options w opts) = Inl e"
  then show "addPlugin E d opts w = (Inl e, w)"
    by (simp add: addPlugin_load_failed)
next
  let ?o = "dissoc ''matching'' bopts"
  let ?w1 = "w\<lparr>plugins := plugins w @ map PluginAt [length (heap w)..<length (heap w) + length ps],
                heap := heap w @ ps,
                extensions := extensions w @ concat (map plugin_extensions ps)\<rparr>"
  assume a: "\<not> isBlank E dir \<and> isDirectory E dir
       \<and> subdirectories E dir False (get_prop bopts ''matching'') True = ds @ d # rest
       \<and> list_all2 (\<lambda>x p. isDirectory E x \<and>
            loadPluginFromDirectory E (resolve E x) (loader_options w ?o) = Inr p) ds ps
       \<and> isDirectory E d
       \<and> loadPluginFromDirectory E (resolve E d) (loader_options w ?o) = Inl e"
  then have before: "forEach (\<lambda>x. addPlugin E x ?o) ds w = (Inr (), ?w1)"
    by (simp add: forEach_addPlugin_loaded)
  have "loader_options ?w1 ?o = loader_options w ?o"
    by (rule loader_options_brand) simp
  then have failing: "addPlugin E d ?o ?w1 = (Inl e, ?w1)"
    using a by (simp add: addPlugin_load_failed)
  have "forEach (\<lambda>x. addPlugin E x ?o) (ds @ d # rest) w = (Inl e, ?w1)"
    using before failing by (simp add: forEach_append)
  then show "addPlugins E dir bopts w = (Inl e, ?w1)"
    using a by (simp add: addPlugins_def)
qed

text \<open>
  In the sample application the git plugin loads and the zip plugin does not.
\<close>

theorem plugin_load_failure_aborts_witness:
  "isDirectory sample_env ''/plugins/zip''
   \<and> loadPluginFromDirectory sample_env (resolve sample_env ''/plugins/zip'')
         (loader_options (new_runtime None) Map.empty) = Inl (Error ''bad plugin'')
   \<and> subdirectories sample_env ''/plugins'' False (get_prop Map.empty ''matching'') True
         = [''/plugins/git'', ''/plugins/zip'']
   \<and> fst (addPlugin sample_env ''/plugins/zip'' Map.empty (new_runtime None)) = Inl (Error ''bad plugin'')
   \<and> snd (addPlugin sample_env ''/plugins/zip'' Map.empty (new_runtime None)) = new_runtime None
   \<and> fst (addPlugins sample_env ''/plugins'' Map.empty (new_runtime None)) = Inl (Error ''bad plugin'')
   \<and> plugins (snd (addPlugins sample_env ''/plugins'' Map.empty (new_runtime None))) = [PluginAt 0]
   \<and> heap (snd (addPlugins sample_env ''/plugins'' Map.empty (new_runtime None))) = [git_plugin]
   \<and> extensions (snd (addPlugins sample_env ''/plugins'' Map.empty (new_runtime None))) =
        extensions (new_runtime None) @ plugin_extensions git_plugin"
proof -
  have h: "heap (new_runtime None) = []" "plugins (new_runtime None) = []"
    by (simp_all add: new_runtime_def addCoreExtensions_def addExtension_def)
  have env: "isDirectory sample_env ''/plugins/zip''" "\<not> isBlank sample_env ''/plugins''"
    "isDirectory sample_env ''/plugins''"
    "subdirectories sample_env ''/plugins'' False (get_prop Map.empty ''matching'') True
       = [''/plugins/git''] @ ''/plugins/zip'' # []"
    "loadPluginFromDirectory sample_env (resolve sample_env ''/plugins/zip'') lo = Inl (Error ''bad plugin'')"
    "list_all2 (\<lambda>x p. isDirectory sample_env x \<and>
        loadPluginFromDirectory sample_env (resolve sample_env x)
          (loader_options (new_runtime None) (dissoc ''matching'' Map.empty)) = Inr p)
       [''/plugins/git''] [git_plugin]" for lo
    by (simp_all add: sample_env_def)
  show ?thesis
    using env h
      plugin_load_failure_aborts [of sample_env "''/plugins/zip''" "new_runtime None" Map.empty
        "Error ''bad plugin''" "''/plugins''" Map.empty "[''/plugins/git'']" "[]" "[git_plugin]"]
    by simp
qed

text \<open>
  C9. \<^verbatim>\<open>addPlugins\<close> returns the runtime unchanged when the directory is blank or not a
  directory; otherwise it asks for the subdirectories of the directory, not recursively,
  with the \<^verbatim>\<open>matching\<close> option as the filter, and calls \<^verbatim>\<open>addPlugin\<close> on each in turn
  with the options without their \<^verbatim>\<open>matching\<close> key.
\<close>

theorem addPlugins_batch:
  "(isBlank E dir \<or> \<not> isDirectory E dir \<longrightarrow> addPlugins E dir opts w = (Inr This, w))
   \<and> (\<not> isBlank E dir \<and> isDirectory E dir \<longrightarrow>
        addPlugins E dir opts w =
          add_each E (dissoc ''matching'' opts)
            (subdirectories E dir False (get_prop opts ''matching'') True) w)
   \<and> dissoc ''matching'' opts ''matching'' = None
   \<and> (\<forall>k. k \<noteq> ''matching'' \<longrightarrow> dissoc ''matching'' opts k = opts k)"
  using add_each_forEach [of E "dissoc ''matching'' opts"
      "subdirectories E dir False (get_prop opts ''matching'') True" w]
  by (auto simp: addPlugins_def dissoc_def)

text \<open>
  A blank directory, a missing one, and the plugin directory of the sample
  application.
\<close>

theorem addPlugins_batch_witness:
  "isBlank sample_env ''''
   \<and> addPlugins sample_env '''' [''matching'' \<mapsto> JStr ''g*''] (new_runtime None) = (Inr This, new_runtime None)
   \<and> \<not> isDirectory sample_env ''/nonexistent''
   \<and> addPlugins sample_env ''/nonexistent'' [''matching'' \<mapsto> JStr ''g*''] (new_runtime None) = (Inr This, new_runtime None)
   \<and> \<not> isBlank sample_env ''/plugins'' \<and> isDirectory sample_env ''/plugins''
   \<and> addPlugins sample_env ''/plugins'' [''matching'' \<mapsto> JStr ''g*''] (new_runtime None) =
       add_each sample_env (dissoc ''matching'' [''matching'' \<mapsto> JStr ''g*''])
         [''/plugins/git'', ''/plugins/zip''] (new_runtime None)"
proof -
  have env: "isBlank sample_env ''''" "\<not> isDirectory sample_env ''/nonexistent''"
    "\<not> isBlank sample_env ''/plugins''" "isDirectory sample_env ''/plugins''"
    "subdirectories sample_env ''/plugins'' False m True = [''/plugins/git'', ''/plugins/zip'']" for m
    by (simp_all add: sample_env_def)
  show ?thesis
    using env
      addPlugins_batch [of sample_env "''''" "[''matching'' \<mapsto> JStr ''g*'']" "new_runtime None"]
      addPlugins_batch [of sample_env "''/nonexistent''" "[''matching'' \<mapsto> JStr ''g*'']" "new_runtime None"]
      addPlugins_batch [of sample_env "''/plugins''" "[''matching'' \<mapsto> JStr ''g*'']" "new_runtime None"]
    by simp
qed

text \<open>
  C10. Immediately after construction the extension sequence holds exactly ten entries,
  named meta, strings, print, template, filesystem, semver, system, http, prompt, patching
  in this order; the plugin registry is empty, the default plugin is null, and defaults and
  config are empty objects.
\<close>

theorem new_runtime_initial:
  "map name (extensions (new_runtime b)) =
     [''meta'', ''strings'', ''print'', ''template'', ''filesystem'',
      ''semver'', ''system'', ''http'', ''prompt'', ''patching'']
   \<and> length (extensions (new_runtime b)) = 10
   \<and> plugins (new_runtime b) = []
   \<and> defaultPlugin (new_runtime b) = Null
   \<and> defaults (new_runtime b) = JObj Map.empty
   \<and> config (new_runtime b) = Map.empty"
  by (simp add: new_runtime_def addCoreExtensions_def addExtension_def)

end
